theory Spec2Isabelle
  imports Complex_Main "HOL-Library.Multiset" "HOL-Library.List_Lexorder" "HOL-Library.Char_ord"
    "HOL-Library.Option_ord" "HOL-Library.Product_Lexorder" "HOL-Library.Log_Nat"
begin

chapter \<open>API Tracker: request execution and telemetry aggregation\<close>

text \<open>
  A shallow embedding of the probe route and the metrics update of \<^verbatim>\<open>routes/api.js\<close>, of
  the Mongoose schemas \<^verbatim>\<open>models/ApiEndpoint.js\<close> and \<^verbatim>\<open>models/ApiRequest.js\<close>, and of the
  aggregation pipelines of \<^verbatim>\<open>routes/tracking.js\<close>.

  Numbers. A JavaScript \<^verbatim>\<open>Number\<close> that holds a counter, a status code, a duration in
  milliseconds or a timestamp (milliseconds since the epoch) is an \<^typ>\<open>int\<close>: integers below
  \<open>2^53\<close> are exact as doubles, and so are their sums and products. A quotient is a double.
  In the metrics update, which rounds its one quotient of two such integers at once, the
  quotient is taken in \<^typ>\<open>real\<close>: the double next to it rounds to the same integer as long
  as the dividend stays below \<open>2^52\<close>. Everywhere else the rounding to double is part of the
  model (\<open>to_double\<close>): a success rate is the quotient times 100, rounded, and the two
  roundings to double can move the product across a tie (23 successes of 40 give \<open>57\<close>,
  not \<open>58\<close>).
\<close>

section \<open>JavaScript arithmetic\<close>

text \<open>\<^verbatim>\<open>Math.round(x)\<close>: the nearest integer, a tie going up (\<^verbatim>\<open>Math.round(0.5) = 1\<close>,
  \<^verbatim>\<open>Math.round(-0.5) = 0\<close>).\<close>

definition Math_round :: "real \<Rightarrow> int" where
  "Math_round x = \<lfloor>x + 1 / 2\<rfloor>"

text \<open>
  The double next to a real number: the nearest multiple of \<open>2^(e - 52)\<close>, where
  \<open>2^e \<le> |x| < 2^(e + 1)\<close>, a tie going to the even multiple (doubles of the normal range;
  no overflow and no subnormal numbers). \<^verbatim>\<open>a / b\<close> and \<^verbatim>\<open>a * b\<close> are the doubles next to the
  real quotient and product; the code divides by a number that is not zero wherever these
  are used.
\<close>

definition pow2 :: "int \<Rightarrow> real" where
  "pow2 k = (if 0 \<le> k then 2 ^ nat k else 1 / 2 ^ nat (- k))"

definition round_half_even :: "real \<Rightarrow> int" where
  "round_half_even y =
     (let f = \<lfloor>y\<rfloor> in
      if y - of_int f < 1 / 2 then f
      else if 1 / 2 < y - of_int f then f + 1
      else if even f then f else f + 1)"

definition binade :: "real \<Rightarrow> int" where
  "binade x =
     (if 1 \<le> \<bar>x\<bar> then bitlen \<lfloor>\<bar>x\<bar>\<rfloor> - 1 else - bitlen (\<lceil>1 / \<bar>x\<bar>\<rceil> - 1))"

definition to_double :: "real \<Rightarrow> real" where
  "to_double x =
     (if x = 0 then 0
      else of_int (round_half_even (x / pow2 (binade x - 52))) * pow2 (binade x - 52))"

definition js_div :: "real \<Rightarrow> real \<Rightarrow> real" where
  "js_div a b = to_double (a / b)"

definition js_mul :: "real \<Rightarrow> real \<Rightarrow> real" where
  "js_mul a b = to_double (a * b)"

section \<open>The endpoint metrics (models/ApiEndpoint.js)\<close>

text \<open>The \<^verbatim>\<open>metrics\<close> sub-document of the endpoint schema and its defaults.\<close>

record metrics =
  totalRequests :: int
  successfulRequests :: int
  failedRequests :: int
  averageResponseTime :: int
  lastRequestTime :: "int option"
  uptime :: int

definition metrics_defaults :: metrics where
  "metrics_defaults = \<lparr>totalRequests = 0, successfulRequests = 0, failedRequests = 0,
     averageResponseTime = 0, lastRequestTime = None, uptime = 100\<rparr>"

section \<open>The metrics update of the probe route (routes/api.js)\<close>

text \<open>
  The statements of \<^verbatim>\<open>POST /api/endpoints/:id/test\<close> that update
  \<^verbatim>\<open>endpoint.metrics\<close>, in the order of the source: the increment of \<^verbatim>\<open>totalRequests\<close>,
  \<^verbatim>\<open>lastRequestTime = new Date()\<close> (the clock reading is the argument \<open>now\<close>), the
  \<^verbatim>\<open>if / else if\<close> on the status code, and the running average, whose divisor \<open>n\<close> is the
  incremented \<^verbatim>\<open>totalRequests\<close>. (A stored \<^verbatim>\<open>totalRequests\<close> of \<open>-1\<close> would make the
  divisor zero, where JavaScript yields \<^verbatim>\<open>NaN\<close>; counters that start at the schema default
  never get there, and no statement below is about that case.)
\<close>

definition updateMetrics :: "metrics \<Rightarrow> int \<Rightarrow> int \<Rightarrow> int \<Rightarrow> metrics" where
  "updateMetrics m statusCode duration now =
    (let m1 = m\<lparr>totalRequests := totalRequests m + 1\<rparr>;
         m2 = m1\<lparr>lastRequestTime := Some now\<rparr>;
         m3 = (if statusCode \<ge> 200 \<and> statusCode < 300
               then m2\<lparr>successfulRequests := successfulRequests m2 + 1\<rparr>
               else if statusCode \<ge> 400
               then m2\<lparr>failedRequests := failedRequests m2 + 1\<rparr>
               else m2);
         currentAvg = averageResponseTime m3;
         n = totalRequests m3
     in m3\<lparr>averageResponseTime :=
          Math_round ((of_int currentAvg * of_int (n - 1) + of_int duration) / of_int n)\<rparr>)"

text \<open>A run of the update over the probes of one endpoint; a sample is the status code, the
  duration and the clock reading of one probe.\<close>

type_synonym sample = "int \<times> int \<times> int"

definition recordSample :: "metrics \<Rightarrow> sample \<Rightarrow> metrics" where
  "recordSample m s = (case s of (statusCode, duration, now) \<Rightarrow> updateMetrics m statusCode duration now)"

definition recordAll :: "metrics \<Rightarrow> sample list \<Rightarrow> metrics" where
  "recordAll m samples = foldl recordSample m samples"

definition durations :: "sample list \<Rightarrow> int list" where
  "durations samples = map (\<lambda>s. fst (snd s)) samples"

text \<open>The specification's reference value: the rounded mean of all durations, from scratch.\<close>

definition batch_mean :: "int list \<Rightarrow> int" where
  "batch_mean ds = Math_round (of_int (sum_list ds) / of_int (int (length ds)))"

text \<open>The mean of the first \<open>k\<close> durations is an integer, for every \<open>k\<close> below the length: no
  earlier update had anything to round.\<close>

definition exact_prefixes :: "int list \<Rightarrow> bool" where
  "exact_prefixes ds = list_all (\<lambda>k. int k dvd sum_list (take k ds)) [1..<length ds]"

text \<open>The invariant of the data model.\<close>

definition metrics_inv :: "metrics \<Rightarrow> bool" where
  "metrics_inv m \<longleftrightarrow> successfulRequests m + failedRequests m \<le> totalRequests m"

section \<open>JavaScript values, truthiness and faults\<close>

datatype json = JNull | JBool bool | JNum int | JStr string | JArr "json list"
  | JObj "(string \<times> json) list"

fun truthy_json :: "json \<Rightarrow> bool" where
  "truthy_json JNull = False"
| "truthy_json (JBool b) = b"
| "truthy_json (JNum n) = (n \<noteq> 0)"
| "truthy_json (JStr s) = (s \<noteq> [])"
| "truthy_json (JArr xs) = True"
| "truthy_json (JObj kvs) = True"

text \<open>A string property that may be absent (\<^verbatim>\<open>undefined\<close>): truthy when present and
  non-empty.\<close>

definition truthy :: "string option \<Rightarrow> bool" where
  "truthy v = (case v of None \<Rightarrow> False | Some s \<Rightarrow> s \<noteq> [])"

datatype js_error = ReferenceError string | TypeError string | ValidationError string

text \<open>\<^verbatim>\<open>a || b\<close> on strings, where evaluating \<open>b\<close> may throw; \<open>b\<close> is evaluated only when
  \<open>a\<close> is falsy.\<close>

definition or_else :: "string option \<Rightarrow> js_error + string \<Rightarrow> js_error + string" where
  "or_else a b = (case a of None \<Rightarrow> b | Some s \<Rightarrow> if s \<noteq> [] then Inr s else b)"

text \<open>\<^verbatim>\<open>s.includes(sub)\<close>.\<close>

fun str_includes :: "string \<Rightarrow> string \<Rightarrow> bool" where
  "str_includes [] sub = (sub = [])"
| "str_includes (c # s) sub = (take (length sub) (c # s) = sub \<or> str_includes s sub)"

text \<open>Reading an identifier: a \<^verbatim>\<open>ReferenceError\<close> unless a declaration of that name is in
  scope at the place of the read.\<close>

definition resolve :: "string list \<Rightarrow> string \<Rightarrow> 'a \<Rightarrow> js_error + 'a" where
  "resolve scope x v = (if x \<in> set scope then Inr v else Inl (ReferenceError x))"

section \<open>The endpoint document (models/ApiEndpoint.js)\<close>

text \<open>
  The fields of the schema that the routes below read or write. String fields hold the
  values after the \<^verbatim>\<open>trim\<close> of the validators and of the schema.
\<close>

record header_decl =
  hd_name :: string
  hd_value :: string
  hd_required :: bool

record apiEndpoint =
  ep_id :: string
  ep_name :: string
  ep_path :: string
  ep_method :: string
  ep_product :: string
  ep_status :: string
  ep_baseUrl :: string
  ep_fullUrl :: string
  ep_headers :: "header_decl list"
  ep_metrics :: metrics


text \<open>The \<^verbatim>\<open>pre('save')\<close> hook of the endpoint schema.\<close>

definition preSave_ApiEndpoint :: "apiEndpoint \<Rightarrow> apiEndpoint" where
  "preSave_ApiEndpoint this = this\<lparr>ep_fullUrl := ep_baseUrl this @ ep_path this\<rparr>"

section \<open>The request document (models/ApiRequest.js)\<close>

text \<open>Dates are milliseconds since the epoch; \<open>None\<close> is a date that is not set.\<close>

record apiRequest =
  rq_endpoint :: string
  rq_product :: string
  rq_requestId :: string
  rq_method :: string
  rq_url :: string
  rq_baseUrl :: string
  rq_path :: string
  rq_headers :: "string \<rightharpoonup> string"
  rq_queryParams :: "(string \<times> string) list"
  rq_body :: "json option"
  rq_statusCode :: int
  rq_statusText :: string
  rq_responseHeaders :: "string \<rightharpoonup> string"
  rq_responseBody :: json
  rq_size :: int
  rq_startTime :: "int option"
  rq_endTime :: "int option"
  rq_duration :: int
  rq_environment :: string
  rq_source :: string
  rq_userId :: "string option"

text \<open>The virtuals \<^verbatim>\<open>isSuccess\<close> and \<^verbatim>\<open>isError\<close>.\<close>

definition isSuccess :: "apiRequest \<Rightarrow> bool" where
  "isSuccess this \<longleftrightarrow> rq_statusCode this \<ge> 200 \<and> rq_statusCode this < 300"

definition isError :: "apiRequest \<Rightarrow> bool" where
  "isError this \<longleftrightarrow> rq_statusCode this \<ge> 400"

text \<open>The \<^verbatim>\<open>pre('save')\<close> hook of the request schema: the duration is derived from the two
  dates when both are set.\<close>

definition preSave_ApiRequest :: "apiRequest \<Rightarrow> apiRequest" where
  "preSave_ApiRequest this =
     (case rq_startTime this of
        None \<Rightarrow> this
      | Some startTime \<Rightarrow>
          (case rq_endTime this of
             None \<Rightarrow> this
           | Some endTime \<Rightarrow> this\<lparr>rq_duration := endTime - startTime\<rparr>))"

section \<open>The store and the responses of the routes\<close>

record product_metrics =
  totalApis :: int
  activeApis :: int

record store =
  endpoints :: "string \<rightharpoonup> apiEndpoint"
  products :: "string \<rightharpoonup> product_metrics"
  requests :: "apiRequest list"

text \<open>A route answers with its payload, or with status 400, 404 or 500.\<close>

datatype 'a response = Success 'a | ValidationErrors | NotFound | ServerError

section \<open>Creating and updating an endpoint (routes/api.js)\<close>

text \<open>
  Both routes hand the request body to the model as it is (\<^verbatim>\<open>...req.body\<close>,
  \<^verbatim>\<open>updateData = req.body\<close>), so a body can hold keys that no validator names: \<^verbatim>\<open>fullUrl\<close>,
  and a \<^verbatim>\<open>metrics\<close> object with any of the keys of the schema. A key that is present is
  stored; the schema puts no bound on the numbers.
\<close>

record metrics_body =
  mb_totalRequests :: "int option"
  mb_successfulRequests :: "int option"
  mb_failedRequests :: "int option"
  mb_averageResponseTime :: "int option"
  mb_lastRequestTime :: "int option"
  mb_uptime :: "int option"

definition set_field :: "'a option \<Rightarrow> 'a \<Rightarrow> 'a" where
  "set_field new old = (case new of None \<Rightarrow> old | Some v \<Rightarrow> v)"

definition set_metrics :: "metrics_body option \<Rightarrow> metrics \<Rightarrow> metrics" where
  "set_metrics sent m =
     (case sent of
        None \<Rightarrow> m
      | Some b \<Rightarrow>
          m\<lparr>totalRequests := set_field (mb_totalRequests b) (totalRequests m),
            successfulRequests := set_field (mb_successfulRequests b) (successfulRequests m),
            failedRequests := set_field (mb_failedRequests b) (failedRequests m),
            averageResponseTime := set_field (mb_averageResponseTime b) (averageResponseTime m),
            lastRequestTime :=
              (case mb_lastRequestTime b of None \<Rightarrow> lastRequestTime m | Some t \<Rightarrow> Some t),
            uptime := set_field (mb_uptime b) (uptime m)\<rparr>)"

text \<open>
  \<^verbatim>\<open>POST /api/endpoints\<close>. The body's own \<^verbatim>\<open>fullUrl\<close>, if any, is overwritten by the later key
  of the object literal; the keys of its \<^verbatim>\<open>metrics\<close>, if any, replace the schema defaults;
  \<^verbatim>\<open>endpoint.save()\<close> runs the hook. \<open>errors_isEmpty\<close> is the verdict of the validators and
  \<open>newId\<close> the identifier that the new document receives.
\<close>

record endpoint_body =
  eb_name :: string
  eb_path :: string
  eb_method :: string
  eb_product :: string
  eb_baseUrl :: string
  eb_status :: "string option"
  eb_headers :: "header_decl list option"
  eb_fullUrl :: "string option"
  eb_metrics :: "metrics_body option"

definition createEndpoint ::
  "store \<Rightarrow> bool \<Rightarrow> string \<Rightarrow> endpoint_body \<Rightarrow> apiEndpoint response \<times> store" where
  "createEndpoint st errors_isEmpty newId body =
     (if \<not> errors_isEmpty then (ValidationErrors, st)
      else case products st (eb_product body) of
        None \<Rightarrow> (NotFound, st)
      | Some product \<Rightarrow>
          (let endpointData =
                 \<lparr>ep_id = newId, ep_name = eb_name body, ep_path = eb_path body,
                  ep_method = eb_method body, ep_product = eb_product body,
                  ep_status = (case eb_status body of None \<Rightarrow> ''active'' | Some s \<Rightarrow> s),
                  ep_baseUrl = eb_baseUrl body,
                  ep_fullUrl = eb_baseUrl body @ eb_path body,
                  ep_headers = (case eb_headers body of None \<Rightarrow> [] | Some hs \<Rightarrow> hs),
                  ep_metrics = set_metrics (eb_metrics body) metrics_defaults\<rparr>;
               endpoint = preSave_ApiEndpoint endpointData;
               product1 = product\<lparr>totalApis := totalApis product + 1\<rparr>;
               product2 = (if ep_status endpoint = ''active''
                           then product1\<lparr>activeApis := activeApis product1 + 1\<rparr>
                           else product1)
           in (Success endpoint,
               st\<lparr>endpoints := (endpoints st)(newId \<mapsto> endpoint),
                  products := (products st)(eb_product body \<mapsto> product2)\<rparr>)))"

text \<open>
  \<^verbatim>\<open>PUT /api/endpoints/:id\<close>. \<^verbatim>\<open>updateData\<close> is the request body as it is, so it holds
  whatever keys the client sent, \<^verbatim>\<open>fullUrl\<close> included.
\<close>

record update_body =
  ub_name :: "string option"
  ub_path :: "string option"
  ub_method :: "string option"
  ub_status :: "string option"
  ub_baseUrl :: "string option"
  ub_fullUrl :: "string option"
  ub_headers :: "header_decl list option"
  ub_metrics :: "metrics_body option"

text \<open>\<^verbatim>\<open>currentEndpoint.baseUrl\<close>, a \<^verbatim>\<open>TypeError\<close> when \<^verbatim>\<open>findById\<close> returned \<^verbatim>\<open>null\<close>.\<close>

definition member_of :: "apiEndpoint option \<Rightarrow> (apiEndpoint \<Rightarrow> string) \<Rightarrow> js_error + string" where
  "member_of obj field =
     (case obj of None \<Rightarrow> Inl (TypeError ''Cannot read properties of null'') | Some e \<Rightarrow> Inr (field e))"

text \<open>The block under the comment \<^verbatim>\<open>// Update full URL if baseUrl or path changed\<close>.\<close>

definition recompute_fullUrl :: "store \<Rightarrow> string \<Rightarrow> update_body \<Rightarrow> js_error + update_body" where
  "recompute_fullUrl st eid updateData =
     (if truthy (ub_baseUrl updateData) \<or> truthy (ub_path updateData) then
        (let currentEndpoint = endpoints st eid in
         case or_else (ub_baseUrl updateData) (member_of currentEndpoint ep_baseUrl) of
           Inl e \<Rightarrow> Inl e
         | Inr newBaseUrl \<Rightarrow>
             (case or_else (ub_path updateData) (member_of currentEndpoint ep_path) of
                Inl e \<Rightarrow> Inl e
              | Inr newPath \<Rightarrow> Inr (updateData\<lparr>ub_fullUrl := Some (newBaseUrl @ newPath)\<rparr>)))
      else Inr updateData)"

text \<open>
  \<^verbatim>\<open>ApiEndpoint.findByIdAndUpdate(id, updateData, { new: true, runValidators: true })\<close>: the
  keys of the update that are present are set on the stored document, after the validators
  of those keys (a required string must not be empty). It is an update query: the
  \<^verbatim>\<open>pre('save')\<close> hook of the schema is not run.
\<close>

definition applyUpdate :: "update_body \<Rightarrow> apiEndpoint \<Rightarrow> apiEndpoint" where
  "applyUpdate u e =
     e\<lparr>ep_name := set_field (ub_name u) (ep_name e),
       ep_path := set_field (ub_path u) (ep_path e),
       ep_method := set_field (ub_method u) (ep_method e),
       ep_status := set_field (ub_status u) (ep_status e),
       ep_baseUrl := set_field (ub_baseUrl u) (ep_baseUrl e),
       ep_fullUrl := set_field (ub_fullUrl u) (ep_fullUrl e),
       ep_headers := set_field (ub_headers u) (ep_headers e),
       ep_metrics := set_metrics (ub_metrics u) (ep_metrics e)\<rparr>"

definition required_ok :: "string option \<Rightarrow> bool" where
  "required_ok v \<longleftrightarrow> v \<noteq> Some []"

definition findByIdAndUpdate ::
  "store \<Rightarrow> string \<Rightarrow> update_body \<Rightarrow> js_error + (apiEndpoint option \<times> store)" where
  "findByIdAndUpdate st eid u =
     (if \<not> (required_ok (ub_name u) \<and> required_ok (ub_path u) \<and> required_ok (ub_method u)
             \<and> required_ok (ub_baseUrl u) \<and> required_ok (ub_fullUrl u))
      then Inl (ValidationError ''required'')
      else case endpoints st eid of
        None \<Rightarrow> Inr (None, st)
      | Some e \<Rightarrow>
          (let e' = applyUpdate u e
           in Inr (Some e', st\<lparr>endpoints := (endpoints st)(eid \<mapsto> e')\<rparr>)))"

definition putEndpoint ::
  "store \<Rightarrow> bool \<Rightarrow> string \<Rightarrow> update_body \<Rightarrow> apiEndpoint response \<times> store" where
  "putEndpoint st errors_isEmpty eid updateData =
     (if \<not> errors_isEmpty then (ValidationErrors, st)
      else case recompute_fullUrl st eid updateData of
        Inl e \<Rightarrow> (ServerError, st)
      | Inr updateData' \<Rightarrow>
          (case findByIdAndUpdate st eid updateData' of
             Inl e \<Rightarrow> (ServerError, st)
           | Inr (None, st') \<Rightarrow> (NotFound, st')
           | Inr (Some endpoint, st') \<Rightarrow> (Success endpoint, st')))"

text \<open>The stored \<^verbatim>\<open>fullUrl\<close> of an endpoint is the concatenation of its base URL and path.\<close>

definition fullUrl_fresh :: "apiEndpoint \<Rightarrow> bool" where
  "fullUrl_fresh e \<longleftrightarrow> ep_fullUrl e = ep_baseUrl e @ ep_path e"

section \<open>The probe route (routes/api.js, POST /api/endpoints/:id/test)\<close>

text \<open>
  What the route takes from outside: the outcome of \<^verbatim>\<open>fetch\<close> for a URL and its options,
  the readings of the clock at the three \<^verbatim>\<open>new Date()\<close>, the identifier from \<^verbatim>\<open>uuidv4()\<close>,
  and the library functions \<^verbatim>\<open>URLSearchParams.toString\<close> and \<^verbatim>\<open>JSON.stringify\<close>.
  A response carries its status line, its headers (names in lower case, as the
  \<^verbatim>\<open>Headers\<close> object keeps them) and the outcome of reading its body as JSON or as text,
  which can fail with a message too.
\<close>

record request_options =
  ro_method :: string
  ro_headers :: "string \<rightharpoonup> string"
  ro_body :: "string option"

record http_response =
  rs_status :: int
  rs_statusText :: string
  rs_headers :: "(string \<times> string) list"
  rs_json :: "string + json"
  rs_text :: "string + string"

datatype fetch_result = Rejected string | Resolved http_response

record world =
  w_fetch :: "string \<Rightarrow> request_options \<Rightarrow> fetch_result"
  w_startTime :: int
  w_endTime :: int
  w_now :: int
  w_uuid :: string
  w_queryString :: "(string \<times> string) list \<Rightarrow> string"
  w_stringify :: "json \<Rightarrow> string"

record test_body =
  tb_headers :: "(string \<rightharpoonup> string) option"
  tb_queryParams :: "(string \<times> string) list option"
  tb_body :: "json option"
  tb_environment :: "string option"

text \<open>The URL with its query string.\<close>

definition buildUrl :: "world \<Rightarrow> apiEndpoint \<Rightarrow> (string \<times> string) list \<Rightarrow> string" where
  "buildUrl w endpoint queryParams =
     (if length queryParams > 0
      then ep_fullUrl endpoint @ ''?'' @ w_queryString w queryParams
      else ep_fullUrl endpoint)"

text \<open>\<^verbatim>\<open>requestOptions\<close>: the method of the endpoint, the object literal
  \<^verbatim>\<open>{ 'Content-Type': 'application/json', ...headers }\<close> (a later key replaces an earlier one),
  and the body for POST, PUT and PATCH when it is truthy.\<close>

definition buildRequestOptions ::
  "world \<Rightarrow> apiEndpoint \<Rightarrow> (string \<rightharpoonup> string) \<Rightarrow> json option \<Rightarrow> request_options" where
  "buildRequestOptions w endpoint headers requestBody =
     \<lparr>ro_method = ep_method endpoint,
      ro_headers = [''Content-Type'' \<mapsto> ''application/json''] ++ headers,
      ro_body = (case requestBody of
                   None \<Rightarrow> None
                 | Some b \<Rightarrow>
                     if ep_method endpoint \<in> set [''POST'', ''PUT'', ''PATCH''] \<and> truthy_json b
                     then Some (w_stringify w b) else None)\<rparr>"

text \<open>
  The inner \<^verbatim>\<open>try\<close>/\<^verbatim>\<open>catch\<close>. It assigns the variables \<^verbatim>\<open>statusCode\<close>, \<^verbatim>\<open>statusText\<close>
  and \<^verbatim>\<open>responseBody\<close> of the enclosing scope (the first three components). The fourth
  component is the \<^verbatim>\<open>const responseHeaders\<close> that the \<^verbatim>\<open>try\<close> block declares for itself;
  it is \<open>None\<close> when \<^verbatim>\<open>fetch\<close> threw before the declaration.
\<close>

definition network_error :: "string \<Rightarrow> int \<times> string \<times> json" where
  "network_error message = (0, ''Network Error'', JObj [(''error'', JStr message)])"

definition tryFetch ::
  "world \<Rightarrow> string \<Rightarrow> request_options \<Rightarrow> (int \<times> string \<times> json) \<times> (string \<rightharpoonup> string) option" where
  "tryFetch w url requestOptions =
     (case w_fetch w url requestOptions of
        Rejected message \<Rightarrow> (network_error message, None)
      | Resolved response \<Rightarrow>
          (let responseHeaders = map_of (rev (rs_headers response));
               contentType = map_of (rs_headers response) ''content-type'';
               body = (case contentType of
                         None \<Rightarrow> map_sum id JStr (rs_text response)
                       | Some ct \<Rightarrow>
                           if ct \<noteq> [] \<and> str_includes ct ''application/json''
                           then rs_json response
                           else map_sum id JStr (rs_text response))
           in case body of
                Inl message \<Rightarrow> (network_error message, Some responseHeaders)
              | Inr responseBody \<Rightarrow>
                  ((rs_status response, rs_statusText response, responseBody),
                   Some responseHeaders)))"

text \<open>\<^verbatim>\<open>duration = endTime.getTime() - startTime.getTime()\<close>.\<close>

definition probe_duration :: "int \<Rightarrow> int \<Rightarrow> int" where
  "probe_duration startTime endTime = endTime - startTime"

text \<open>
  The declarations in scope where the route builds the request document (the argument of
  \<^verbatim>\<open>new ApiRequest\<close>): those of the handler's body before that statement, the handler's
  parameters, and those of the module. The declarations of the inner \<^verbatim>\<open>try\<close> block,
  \<^verbatim>\<open>responseHeaders\<close> and \<^verbatim>\<open>contentType\<close>, ended with the block.
\<close>

definition handler_declarations :: "string list" where
  "handler_declarations =
     [''req'', ''res'', ''errors'', ''id'', ''headers'', ''queryParams'', ''requestBody'',
      ''environment'', ''endpoint'', ''url'', ''requestOptions'', ''startTime'', ''response'',
      ''responseBody'', ''statusCode'', ''statusText'', ''endTime'', ''duration'',
      ''ApiRequest'', ''uuidv4'', ''apiRequest'']"

definition module_declarations :: "string list" where
  "module_declarations =
     [''express'', ''body'', ''validationResult'', ''query'', ''ApiEndpoint'', ''Product'',
      ''router'']"

definition try_block_declarations :: "string list" where
  "try_block_declarations = [''responseHeaders'', ''contentType'']"

record test_payload =
  tp_url :: string
  tp_method :: string
  tp_requestHeaders :: "string \<rightharpoonup> string"
  tp_requestBody :: "json option"
  tp_statusCode :: int
  tp_statusText :: string
  tp_responseHeaders :: "string \<rightharpoonup> string"
  tp_responseBody :: json
  tp_duration :: int
  tp_startTime :: int
  tp_endTime :: int
  tp_endpoint_id :: string
  tp_endpoint_name :: string
  tp_metrics :: metrics

text \<open>
  The handler. A fault thrown anywhere in its body reaches the outer \<^verbatim>\<open>catch\<close>, which
  answers with status 500; the store then holds what was saved before the fault.
  \<^verbatim>\<open>apiRequest.save()\<close> runs the hook of the request schema and \<^verbatim>\<open>endpoint.save()\<close> the one
  of the endpoint schema.
\<close>

definition testEndpoint ::
  "world \<Rightarrow> store \<Rightarrow> bool \<Rightarrow> string \<Rightarrow> test_body \<Rightarrow> test_payload response \<times> store" where
  "testEndpoint w st errors_isEmpty eid body =
     (if \<not> errors_isEmpty then (ValidationErrors, st)
      else
        let headers = (case tb_headers body of None \<Rightarrow> Map.empty | Some h \<Rightarrow> h);
            queryParams = (case tb_queryParams body of None \<Rightarrow> [] | Some q \<Rightarrow> q);
            requestBody = tb_body body;
            environment = (case tb_environment body of None \<Rightarrow> ''development'' | Some e \<Rightarrow> e)
        in case endpoints st eid of
          None \<Rightarrow> (NotFound, st)
        | Some endpoint \<Rightarrow>
            (let url = buildUrl w endpoint queryParams;
                 requestOptions = buildRequestOptions w endpoint headers requestBody;
                 startTime = w_startTime w;
                 ((statusCode, statusText, responseBody), block_responseHeaders) =
                    tryFetch w url requestOptions;
                 endTime = w_endTime w;
                 duration = probe_duration startTime endTime
             in case resolve (handler_declarations @ module_declarations) ''responseHeaders''
                       block_responseHeaders of
                  Inl e \<Rightarrow> (ServerError, st)
                | Inr responseHeaders \<Rightarrow>
                    (let response_headers =
                           (case responseHeaders of None \<Rightarrow> Map.empty | Some h \<Rightarrow> h);
                         apiRequest =
                           \<lparr>rq_endpoint = ep_id endpoint, rq_product = ep_product endpoint,
                            rq_requestId = w_uuid w, rq_method = ep_method endpoint,
                            rq_url = url, rq_baseUrl = ep_baseUrl endpoint,
                            rq_path = ep_path endpoint, rq_headers = ro_headers requestOptions,
                            rq_queryParams = queryParams, rq_body = requestBody,
                            rq_statusCode = statusCode, rq_statusText = statusText,
                            rq_responseHeaders = response_headers,
                            rq_responseBody = responseBody,
                            rq_size = int (length (w_stringify w responseBody)),
                            rq_startTime = Some startTime, rq_endTime = Some endTime,
                            rq_duration = duration, rq_environment = environment,
                            rq_source = ''manual'', rq_userId = None\<rparr>;
                         st1 = st\<lparr>requests := requests st @ [preSave_ApiRequest apiRequest]\<rparr>;
                         endpoint1 = preSave_ApiEndpoint
                           (endpoint\<lparr>ep_metrics :=
                              updateMetrics (ep_metrics endpoint) statusCode duration (w_now w)\<rparr>);
                         st2 = st1\<lparr>endpoints := (endpoints st1)(eid \<mapsto> endpoint1)\<rparr>
                     in (Success
                           \<lparr>tp_url = url, tp_method = ep_method endpoint,
                            tp_requestHeaders = ro_headers requestOptions,
                            tp_requestBody = requestBody, tp_statusCode = statusCode,
                            tp_statusText = statusText, tp_responseHeaders = response_headers,
                            tp_responseBody = responseBody, tp_duration = duration,
                            tp_startTime = startTime, tp_endTime = endTime,
                            tp_endpoint_id = ep_id endpoint, tp_endpoint_name = ep_name endpoint,
                            tp_metrics = ep_metrics endpoint1\<rparr>,
                         st2))))"

section \<open>The aggregation pipelines (routes/tracking.js)\<close>

subsection \<open>The stages \<^verbatim>\<open>$match\<close> and \<^verbatim>\<open>$group\<close>\<close>

text \<open>
  The filter object of the routes: \<^verbatim>\<open>'timing.startTime': { $gte: startDate }\<close> and an
  equality for each of the optional keys that the route adds. (The switch from the period
  to \<^verbatim>\<open>startDate\<close> is calendar arithmetic of \<^verbatim>\<open>Date\<close>; its result is taken as given.)

  The routes put the query parameters into the filter as the strings they are, and
  \<^verbatim>\<open>Model.aggregate\<close> sends the pipeline to the database without casting it to the schema.
  \<^verbatim>\<open>$match\<close> compares values with their types: the stored \<^verbatim>\<open>product\<close> and \<^verbatim>\<open>endpoint\<close> of a
  request are ObjectIds (\<open>rq_product\<close> and \<open>rq_endpoint\<close> hold their hexadecimal form), the
  stored \<^verbatim>\<open>environment\<close> is a string.
\<close>

datatype bson = ObjectId string | Str string

record match_filter =
  f_startDate :: int
  f_product :: "string option"
  f_endpoint :: "string option"
  f_environment :: "string option"

definition matches :: "match_filter \<Rightarrow> apiRequest \<Rightarrow> bool" where
  "matches flt d \<longleftrightarrow>
     (case rq_startTime d of None \<Rightarrow> False | Some t \<Rightarrow> t \<ge> f_startDate flt)
     \<and> (case f_product flt of None \<Rightarrow> True | Some p \<Rightarrow> ObjectId (rq_product d) = Str p)
     \<and> (case f_endpoint flt of None \<Rightarrow> True | Some e \<Rightarrow> ObjectId (rq_endpoint d) = Str e)
     \<and> (case f_environment flt of None \<Rightarrow> True | Some e \<Rightarrow> Str (rq_environment d) = Str e)"

text \<open>
  What a query asks for, in the words of the specification (the records matching the
  filter): the requests that started in the range, of the product, of the endpoint and in
  the environment that the filter names.
\<close>

definition requested :: "match_filter \<Rightarrow> apiRequest \<Rightarrow> bool" where
  "requested flt d \<longleftrightarrow>
     (case rq_startTime d of None \<Rightarrow> False | Some t \<Rightarrow> t \<ge> f_startDate flt)
     \<and> (case f_product flt of None \<Rightarrow> True | Some p \<Rightarrow> rq_product d = p)
     \<and> (case f_endpoint flt of None \<Rightarrow> True | Some e \<Rightarrow> rq_endpoint d = e)
     \<and> (case f_environment flt of None \<Rightarrow> True | Some e \<Rightarrow> rq_environment d = e)"

text \<open>\<^verbatim>\<open>if (product) filter.product = product\<close>: a key is added when the query parameter is
  truthy.\<close>

definition optional_key :: "string option \<Rightarrow> string option" where
  "optional_key v = (if truthy v then v else None)"

definition dashboard_filter :: "int \<Rightarrow> string option \<Rightarrow> match_filter" where
  "dashboard_filter startDate environment =
     \<lparr>f_startDate = startDate, f_product = None, f_endpoint = None,
      f_environment = optional_key environment\<rparr>"

definition analytics_filter :: "int \<Rightarrow> string option \<Rightarrow> string option \<Rightarrow> match_filter" where
  "analytics_filter startDate product environment =
     \<lparr>f_startDate = startDate, f_product = optional_key product, f_endpoint = None,
      f_environment = optional_key environment\<rparr>"

text \<open>
  \<^verbatim>\<open>$group\<close> in one pass over the documents: each document goes to the group of its key,
  which is created from the empty accumulators when the key is new.
\<close>

fun upsert :: "'k \<Rightarrow> ('a \<Rightarrow> 'a) \<Rightarrow> 'a \<Rightarrow> ('k \<times> 'a) list \<Rightarrow> ('k \<times> 'a) list" where
  "upsert k step init [] = [(k, step init)]"
| "upsert k step init (g # groups) =
     (if fst g = k then (k, step (snd g)) # groups else g # upsert k step init groups)"

definition group_stage ::
  "('d \<Rightarrow> 'k) \<Rightarrow> ('a \<Rightarrow> 'd \<Rightarrow> 'a) \<Rightarrow> 'a \<Rightarrow> 'd list \<Rightarrow> ('k \<times> 'a) list" where
  "group_stage key step init docs =
     foldl (\<lambda>groups d. upsert (key d) (\<lambda>a. step a d) init groups) [] docs"

text \<open>
  The accumulators of the dashboard overview and of the analytics: \<^verbatim>\<open>$sum\<close> of 1 or of a
  \<^verbatim>\<open>$cond\<close>, \<^verbatim>\<open>$avg\<close> (a sum and a count), \<^verbatim>\<open>$min\<close>, \<^verbatim>\<open>$max\<close> and \<^verbatim>\<open>$addToSet\<close>.
\<close>

record accumulators =
  a_totalRequests :: int
  a_successfulRequests :: int
  a_failedRequests :: int
  a_durationSum :: int
  a_durationCount :: int
  a_minResponseTime :: "int option"
  a_maxResponseTime :: "int option"
  a_totalDataTransferred :: int
  a_uniqueUsers :: "string option list"
  a_uniqueEndpoints :: "string list"

definition acc_init :: accumulators where
  "acc_init = \<lparr>a_totalRequests = 0, a_successfulRequests = 0, a_failedRequests = 0,
     a_durationSum = 0, a_durationCount = 0, a_minResponseTime = None,
     a_maxResponseTime = None, a_totalDataTransferred = 0, a_uniqueUsers = [],
     a_uniqueEndpoints = []\<rparr>"

definition accumulate :: "accumulators \<Rightarrow> apiRequest \<Rightarrow> accumulators" where
  "accumulate a d =
     \<lparr>a_totalRequests = a_totalRequests a + 1,
      a_successfulRequests = a_successfulRequests a
        + (if rq_statusCode d \<ge> 200 \<and> rq_statusCode d < 300 then 1 else 0),
      a_failedRequests = a_failedRequests a + (if rq_statusCode d \<ge> 400 then 1 else 0),
      a_durationSum = a_durationSum a + rq_duration d,
      a_durationCount = a_durationCount a + 1,
      a_minResponseTime =
        (case a_minResponseTime a of None \<Rightarrow> Some (rq_duration d)
         | Some m \<Rightarrow> Some (min m (rq_duration d))),
      a_maxResponseTime =
        (case a_maxResponseTime a of None \<Rightarrow> Some (rq_duration d)
         | Some m \<Rightarrow> Some (max m (rq_duration d))),
      a_totalDataTransferred = a_totalDataTransferred a + rq_size d,
      a_uniqueUsers = List.insert (rq_userId d) (a_uniqueUsers a),
      a_uniqueEndpoints = List.insert (rq_endpoint d) (a_uniqueEndpoints a)\<rparr>"

definition avg_duration :: "accumulators \<Rightarrow> real" where
  "avg_duration a = js_div (of_int (a_durationSum a)) (of_int (a_durationCount a))"

subsection \<open>GET /api/tracking/dashboard: the overview\<close>





subsection \<open>GET /api/tracking/analytics: the buckets\<close>

text \<open>
  The date operators of the database (\<^verbatim>\<open>$year\<close>, \<^verbatim>\<open>$month\<close>, \<^verbatim>\<open>$dayOfMonth\<close>, \<^verbatim>\<open>$hour\<close>,
  \<^verbatim>\<open>$week\<close>) and the constructor \<^verbatim>\<open>new Date(year, monthIndex, day, hour)\<close> are parameters.
  A group identifier holds the fields of \<^verbatim>\<open>groupFields\<close> in the order of the \<^verbatim>\<open>$sort\<close>
  stage (year, month, day, hour, week); a field that the granularity does not use is
  \<open>None\<close>, which \<^verbatim>\<open>$sort\<close> puts before every number.
\<close>

record date_ops =
  op_year :: "int \<Rightarrow> int"
  op_month :: "int \<Rightarrow> int"
  op_dayOfMonth :: "int \<Rightarrow> int"
  op_hour :: "int \<Rightarrow> int"
  op_week :: "int \<Rightarrow> int"
  new_Date :: "int \<Rightarrow> int \<Rightarrow> int \<Rightarrow> int \<Rightarrow> int"

datatype groupBy = Hour | Day | Week | Month

type_synonym bucket_id = "int option \<times> int option \<times> int option \<times> int option \<times> int option"

definition groupFields :: "date_ops \<Rightarrow> groupBy \<Rightarrow> apiRequest \<Rightarrow> bucket_id" where
  "groupFields ops g d =
     (let year = map_option (op_year ops) (rq_startTime d);
          month = map_option (op_month ops) (rq_startTime d);
          day = map_option (op_dayOfMonth ops) (rq_startTime d);
          hour = map_option (op_hour ops) (rq_startTime d);
          week = map_option (op_week ops) (rq_startTime d)
      in case g of
           Hour \<Rightarrow> (year, month, day, hour, None)
         | Day \<Rightarrow> (year, month, day, None, None)
         | Week \<Rightarrow> (year, None, None, None, week)
         | Month \<Rightarrow> (year, month, None, None, None))"

text \<open>The stage \<^verbatim>\<open>$addFields\<close>: the success rate of a group, before rounding.\<close>

definition addFields_successRate :: "accumulators \<Rightarrow> real" where
  "addFields_successRate a =
     (if a_totalRequests a = 0 then 100
      else js_mul (js_div (of_int (a_successfulRequests a)) (of_int (a_totalRequests a))) 100)"

text \<open>A \<^verbatim>\<open>null\<close> field used as a number is 0.\<close>

definition num :: "int option \<Rightarrow> int" where
  "num v = (case v of None \<Rightarrow> 0 | Some n \<Rightarrow> n)"

record bucket_summary =
  bs_timestamp :: int
  bs_totalRequests :: int
  bs_successfulRequests :: int
  bs_failedRequests :: int
  bs_successRate :: int
  bs_avgResponseTime :: int
  bs_minResponseTime :: "int option"
  bs_maxResponseTime :: "int option"
  bs_totalDataTransferred :: int
  bs_uniqueUserCount :: int
  bs_uniqueEndpointCount :: int

definition bucket_timestamp :: "date_ops \<Rightarrow> groupBy \<Rightarrow> bucket_id \<Rightarrow> int" where
  "bucket_timestamp ops g item_id =
     (case item_id of (year, month, day, hour, week) \<Rightarrow>
        (case g of
           Hour \<Rightarrow> new_Date ops (num year) (num month - 1) (num day) (num hour)
         | Day \<Rightarrow> new_Date ops (num year) (num month - 1) (num day) 0
         | Week \<Rightarrow> new_Date ops (num year) 0 (1 + (num week - 1) * 7) 0
         | Month \<Rightarrow> new_Date ops (num year) (num month - 1) 1 0))"

definition format_bucket ::
  "date_ops \<Rightarrow> groupBy \<Rightarrow> bucket_id \<times> accumulators \<Rightarrow> bucket_summary" where
  "format_bucket ops g item =
     \<lparr>bs_timestamp = bucket_timestamp ops g (fst item),
      bs_totalRequests = a_totalRequests (snd item),
      bs_successfulRequests = a_successfulRequests (snd item),
      bs_failedRequests = a_failedRequests (snd item),
      bs_successRate = Math_round (addFields_successRate (snd item)),
      bs_avgResponseTime = Math_round (avg_duration (snd item)),
      bs_minResponseTime = a_minResponseTime (snd item),
      bs_maxResponseTime = a_maxResponseTime (snd item),
      bs_totalDataTransferred = a_totalDataTransferred (snd item),
      bs_uniqueUserCount = int (length (a_uniqueUsers (snd item))),
      bs_uniqueEndpointCount = int (length (a_uniqueEndpoints (snd item)))\<rparr>"

text \<open>The pipeline \<^verbatim>\<open>$match\<close>, \<^verbatim>\<open>$group\<close>, \<^verbatim>\<open>$addFields\<close>, \<^verbatim>\<open>$sort\<close> and the formatting
  \<^verbatim>\<open>map\<close>. The identifiers of the groups are distinct, so the sort on them has one result.\<close>

definition analytics ::
  "date_ops \<Rightarrow> match_filter \<Rightarrow> groupBy \<Rightarrow> apiRequest list \<Rightarrow> bucket_summary list" where
  "analytics ops flt g docs =
     map (format_bucket ops g)
       (sort_key fst (group_stage (groupFields ops g) accumulate acc_init
          (filter (matches flt) docs)))"

text \<open>
  The route with its validators: \<^verbatim>\<open>product\<close>, when present, is 24 hexadecimal digits
  (\<^verbatim>\<open>isMongoId\<close>) and \<^verbatim>\<open>environment\<close>, when present, one of the three environments; the
  granularity is one of the four by its type.
\<close>

definition isMongoId :: "string \<Rightarrow> bool" where
  "isMongoId s \<longleftrightarrow> length s = 24 \<and> list_all (\<lambda>c. c \<in> set ''0123456789abcdefABCDEF'') s"

definition getAnalytics ::
  "date_ops \<Rightarrow> int \<Rightarrow> groupBy \<Rightarrow> string option \<Rightarrow> string option \<Rightarrow> apiRequest list
     \<Rightarrow> bucket_summary list response" where
  "getAnalytics ops startDate g product environment docs =
     (if \<not> ((case product of None \<Rightarrow> True | Some p \<Rightarrow> isMongoId p)
             \<and> (case environment of
                    None \<Rightarrow> True
                  | Some e \<Rightarrow> e \<in> set [''development'', ''staging'', ''production'']))
      then ValidationErrors
      else Success (analytics ops (analytics_filter startDate product environment) g docs))"

subsection \<open>GET /api/tracking/dashboard: the top products\<close>

record product_accumulators =
  pa_requestCount :: int
  pa_durationSum :: int
  pa_successSum :: int

definition pa_init :: product_accumulators where
  "pa_init = \<lparr>pa_requestCount = 0, pa_durationSum = 0, pa_successSum = 0\<rparr>"

definition pa_accumulate :: "product_accumulators \<Rightarrow> apiRequest \<Rightarrow> product_accumulators" where
  "pa_accumulate a d =
     \<lparr>pa_requestCount = pa_requestCount a + 1,
      pa_durationSum = pa_durationSum a + rq_duration d,
      pa_successSum = pa_successSum a
        + (if rq_statusCode d \<ge> 200 \<and> rq_statusCode d < 300 then 1 else 0)\<rparr>"

record product_group =
  pg_id :: string
  pg_requestCount :: int
  pg_avgResponseTime :: real
  pg_successRate :: real

definition topProducts_groups :: "match_filter \<Rightarrow> apiRequest list \<Rightarrow> product_group list" where
  "topProducts_groups flt docs =
     map (\<lambda>g. \<lparr>pg_id = fst g, pg_requestCount = pa_requestCount (snd g),
                pg_avgResponseTime =
                  js_div (of_int (pa_durationSum (snd g))) (of_int (pa_requestCount (snd g))),
                pg_successRate =
                  js_div (of_int (pa_successSum (snd g))) (of_int (pa_requestCount (snd g)))\<rparr>)
       (group_stage rq_product pa_accumulate pa_init (filter (matches flt) docs))"

text \<open>
  \<^verbatim>\<open>{ $sort: { requestCount: -1 } }\<close>. The stage promises its documents in descending order
  of the one sort key and nothing about documents with equal keys, so it is a relation
  between its input and the outputs it may give.
\<close>

definition sort_desc_admits :: "('a \<Rightarrow> int) \<Rightarrow> 'a list \<Rightarrow> 'a list \<Rightarrow> bool" where
  "sort_desc_admits key input output \<longleftrightarrow>
     mset output = mset input \<and> sorted_wrt (\<lambda>a b. key a \<ge> key b) output"

definition topProducts_sorted :: "match_filter \<Rightarrow> apiRequest list \<Rightarrow> product_group list \<Rightarrow> bool" where
  "topProducts_sorted flt docs sorted_groups \<longleftrightarrow>
     sort_desc_admits pg_requestCount (topProducts_groups flt docs) sorted_groups"

text \<open>\<^verbatim>\<open>{ $limit: 10 }\<close> and the \<^verbatim>\<open>map\<close> of the result; \<open>productMap\<close> holds the names of the
  products found for the identifiers.\<close>

record ranked_product =
  rp_id :: string
  rp_requestCount :: int
  rp_avgResponseTime :: real
  rp_product :: string
  rp_successRate :: int

definition topProducts :: "(string \<rightharpoonup> string) \<Rightarrow> product_group list \<Rightarrow> ranked_product list" where
  "topProducts productMap sorted_groups =
     map (\<lambda>item. \<lparr>rp_id = pg_id item, rp_requestCount = pg_requestCount item,
                   rp_avgResponseTime = pg_avgResponseTime item,
                   rp_product = (case productMap (pg_id item) of
                                   None \<Rightarrow> ''Unknown Product'' | Some name \<Rightarrow> name),
                   rp_successRate = Math_round (js_mul (pg_successRate item) 100)\<rparr>)
       (take 10 sorted_groups)"


section \<open>Concrete inputs\<close>

text \<open>
  An instance of the date operators: the proleptic Gregorian calendar in UTC, through the
  day number since 1970-01-01 (a Thursday). \<^verbatim>\<open>$week\<close> counts weeks that begin on Sunday,
  from 0 for the days before the first Sunday of the year.
\<close>

definition civil_from_days :: "int \<Rightarrow> int \<times> int \<times> int" where
  "civil_from_days z0 =
     (let z = z0 + 719468;
          era = z div 146097;
          doe = z mod 146097;
          yoe = (doe - doe div 1460 + doe div 36524 - doe div 146096) div 365;
          doy = doe - (365 * yoe + yoe div 4 - yoe div 100);
          mp = (5 * doy + 2) div 153;
          d = doy - (153 * mp + 2) div 5 + 1;
          m = (if mp < 10 then mp + 3 else mp - 9);
          y = yoe + era * 400 + (if m \<le> 2 then 1 else 0)
      in (y, m, d))"

definition days_from_civil :: "int \<Rightarrow> int \<Rightarrow> int \<Rightarrow> int" where
  "days_from_civil y0 m d =
     (let y = (if m \<le> 2 then y0 - 1 else y0);
          era = y div 400;
          yoe = y mod 400;
          doy = (153 * (if m > 2 then m - 3 else m + 9) + 2) div 5 + d - 1;
          doe = yoe * 365 + yoe div 4 - yoe div 100 + doy
      in era * 146097 + doe - 719468)"

definition utc_ops :: date_ops where
  "utc_ops =
     \<lparr>op_year = (\<lambda>t. fst (civil_from_days (t div 86400000))),
      op_month = (\<lambda>t. fst (snd (civil_from_days (t div 86400000)))),
      op_dayOfMonth = (\<lambda>t. snd (snd (civil_from_days (t div 86400000)))),
      op_hour = (\<lambda>t. t div 3600000 mod 24),
      op_week = (\<lambda>t. let days = t div 86400000;
                        yday = days - days_from_civil (fst (civil_from_days days)) 1 1;
                        wday = (days + 4) mod 7
                    in (yday + 7 - wday) div 7),
      new_Date = (\<lambda>year monthIndex day hour.
                    (days_from_civil year (monthIndex + 1) 1 + (day - 1)) * 86400000
                    + hour * 3600000)\<rparr>"

text \<open>A stored request of a product and an endpoint, with its status code, start time and
  duration.\<close>

definition example_doc :: "string \<Rightarrow> string \<Rightarrow> int \<Rightarrow> int \<Rightarrow> int \<Rightarrow> apiRequest" where
  "example_doc product endpoint statusCode startTime duration =
     \<lparr>rq_endpoint = endpoint, rq_product = product, rq_requestId = ''r'', rq_method = ''GET'',
      rq_url = ''http://api.example.com/v1/items'', rq_baseUrl = ''http://api.example.com'',
      rq_path = ''/v1/items'', rq_headers = [''Content-Type'' \<mapsto> ''application/json''],
      rq_queryParams = [], rq_body = None, rq_statusCode = statusCode, rq_statusText = ''OK'',
      rq_responseHeaders = Map.empty, rq_responseBody = JStr ''ok'', rq_size = 4,
      rq_startTime = Some startTime, rq_endTime = Some (startTime + duration),
      rq_duration = duration, rq_environment = ''development'', rq_source = ''manual'',
      rq_userId = None\<rparr>"


definition example_filter :: match_filter where
  "example_filter = analytics_filter 1699000000000 None None"

text \<open>One request of each of two products.\<close>

definition example_tied_docs :: "apiRequest list" where
  "example_tied_docs =
     [example_doc ''p2'' ''e2'' 200 1700000000000 10,
      example_doc ''p1'' ''e1'' 200 1700000000000 10]"

definition example_group :: "string \<Rightarrow> product_group" where
  "example_group p = \<lparr>pg_id = p, pg_requestCount = 1, pg_avgResponseTime = 10, pg_successRate = 1\<rparr>"

text \<open>An endpoint that declares one header, in a store with its product and no request; a
  world in which the target host refuses the connection; a probe without overrides.\<close>

definition example_endpoint :: apiEndpoint where
  "example_endpoint =
     \<lparr>ep_id = ''e1'', ep_name = ''List items'', ep_path = ''/v1/items'', ep_method = ''GET'',
      ep_product = ''p1'', ep_status = ''active'', ep_baseUrl = ''http://api.example.com'',
      ep_fullUrl = ''http://api.example.com/v1/items'',
      ep_headers = [\<lparr>hd_name = ''X-Api-Key'', hd_value = ''secret'', hd_required = True\<rparr>],
      ep_metrics = metrics_defaults\<rparr>"

definition example_store :: store where
  "example_store =
     \<lparr>endpoints = [''e1'' \<mapsto> example_endpoint],
      products = [''p1'' \<mapsto> \<lparr>totalApis = 1, activeApis = 1\<rparr>],
      requests = []\<rparr>"

definition example_world :: world where
  "example_world =
     \<lparr>w_fetch = (\<lambda>url requestOptions. Rejected ''connect ECONNREFUSED''),
      w_startTime = 1700000000000, w_endTime = 1700000000040, w_now = 1700000000041,
      w_uuid = ''r1'', w_queryString = (\<lambda>queryParams. ''''), w_stringify = (\<lambda>v. ''{}'')\<rparr>"

definition example_test_body :: test_body where
  "example_test_body =
     \<lparr>tb_headers = None, tb_queryParams = None, tb_body = None, tb_environment = None\<rparr>"

text \<open>An update whose body holds the key \<^verbatim>\<open>fullUrl\<close> and nothing else.\<close>

definition example_update :: update_body where
  "example_update =
     \<lparr>ub_name = None, ub_path = None, ub_method = None, ub_status = None, ub_baseUrl = None,
      ub_fullUrl = Some ''http://stale.example.org/old'', ub_headers = None, ub_metrics = None\<rparr>"

text \<open>A product whose identifier passes \<^verbatim>\<open>isMongoId\<close>, in a store without endpoints, and the
  creation of an endpoint of that product whose body holds
  \<^verbatim>\<open>metrics: { totalRequests: 3, successfulRequests: 5 }\<close>.\<close>

definition example_product_id :: string where
  "example_product_id = ''65536f0a1c9d440000a1b2c3''"



text \<open>The three requests of \<open>example_docs\<close> for that product and an endpoint of it.\<close>

definition example_product_docs :: "apiRequest list" where
  "example_product_docs =
     [example_doc example_product_id ''65536f0a1c9d440000e1e1e1'' 200 1700000000000 100,
      example_doc example_product_id ''65536f0a1c9d440000e1e1e1'' 200 1700003600000 200,
      example_doc example_product_id ''65536f0a1c9d440000e1e1e1'' 500 1700090000000 300]"


section \<open>Lemmas about the doubles\<close>










lemma binade_bounds:
  assumes "0 < x"
  shows "pow2 (binade x) \<le> x \<and> x < pow2 (binade x + 1)"
proof (cases "1 \<le> x")
  case True
  define n where "n = \<lfloor>x\<rfloor>"
  have n: "0 < n" using True by (simp add: n_def)
  have b: "0 < bitlen n" using n bitlen_nonneg [of n] bitlen_eq_zero_iff [of n] by linarith
  from bitlen_bounds [OF n] have lo: "2 ^ nat (bitlen n - 1) \<le> n" and hi: "n < 2 ^ nat (bitlen n)"
    by simp_all
  have "real_of_int (2 ^ nat (bitlen n - 1)) \<le> real_of_int n"
    using lo by (simp only: of_int_le_iff)
  moreover have "real_of_int (2 ^ nat (bitlen n - 1)) = 2 ^ nat (bitlen n - 1)" by simp
  moreover have "real_of_int n \<le> x" by (simp add: n_def)
  ultimately have 1: "2 ^ nat (bitlen n - 1) \<le> x" by linarith
  have "n + 1 \<le> 2 ^ nat (bitlen n)" using hi by simp
  then have "real_of_int (n + 1) \<le> real_of_int (2 ^ nat (bitlen n))"
    by (simp only: of_int_le_iff)
  moreover have "real_of_int (2 ^ nat (bitlen n)) = 2 ^ nat (bitlen n)" by simp
  moreover have "x < real_of_int (n + 1)" by (simp add: n_def)
  ultimately have 2: "x < 2 ^ nat (bitlen n)" by linarith
  from 1 2 b True assms show ?thesis
    by (simp add: binade_def pow2_def n_def)
next
  case False
  with assms have x1: "x < 1" by simp
  define m where "m = \<lceil>1 / x\<rceil>"
  have inv: "1 < 1 / x" using assms x1 by simp
  then have m2: "2 \<le> m" unfolding m_def by linarith
  define k where "k = bitlen (m - 1)"
  have m1: "0 < m - 1" using m2 by simp
  have k: "0 < k" using m1 bitlen_nonneg [of "m - 1"] bitlen_eq_zero_iff [of "m - 1"]
    unfolding k_def by linarith
  from bitlen_bounds [OF m1] have lo: "2 ^ nat (k - 1) \<le> m - 1" and hi: "m - 1 < 2 ^ nat k"
    by (simp_all add: k_def)
  have "m \<le> 2 ^ nat k" using hi by simp
  then have "real_of_int m \<le> real_of_int (2 ^ nat k)" by (simp only: of_int_le_iff)
  moreover have "real_of_int (2 ^ nat k) = 2 ^ nat k" by simp
  moreover have "1 / x \<le> real_of_int m" by (simp add: m_def)
  ultimately have "1 / x \<le> 2 ^ nat k" by linarith
  then have 1: "1 / 2 ^ nat k \<le> x" using assms
    by (simp add: field_simps)
  have "real_of_int (2 ^ nat (k - 1)) \<le> real_of_int (m - 1)"
    using lo by (simp only: of_int_le_iff)
  moreover have "real_of_int (2 ^ nat (k - 1)) = 2 ^ nat (k - 1)" by simp
  moreover have "real_of_int (m - 1) < 1 / x" unfolding m_def by linarith
  ultimately have "2 ^ nat (k - 1) < 1 / x" by linarith
  then have 2: "x < 1 / 2 ^ nat (k - 1)" using assms
    by (simp add: field_simps)
  have e: "binade x = - k" using x1 assms by (simp add: binade_def k_def m_def)
  have "pow2 (- k) = 1 / 2 ^ nat k" using k by (simp add: pow2_def)
  moreover have "pow2 (- k + 1) = 1 / 2 ^ nat (k - 1)"
  proof (cases "k = 1")
    case True
    then show ?thesis by (simp add: pow2_def)
  next
    case False
    with k have "1 < k" by simp
    then have "nat (k - 1) = nat (- (- k + 1))" by simp
    with \<open>1 < k\<close> show ?thesis by (simp add: pow2_def)
  qed
  ultimately show ?thesis using 1 2 by (simp add: e)
qed

lemma double_rounding_example:
  "Math_round (js_mul (js_div 23 40) 100) = 57" "Math_round (23 / 40 * 100) = 58"
  by code_simp+

lemma js_div_examples: "js_div 10 1 = 10" "js_div 1 1 = 1"
  by code_simp+

section \<open>Lemmas about the metrics update\<close>

lemma Math_round_of_int: "Math_round (of_int q) = q"
  unfolding Math_round_def by linarith

lemma updateMetrics_total: "totalRequests (updateMetrics m sc d t) = totalRequests m + 1"
  by (simp add: updateMetrics_def Let_def)

lemma updateMetrics_avg:
  "averageResponseTime (updateMetrics m sc d t) =
     Math_round ((of_int (averageResponseTime m) * of_int (totalRequests m) + of_int d)
                 / of_int (totalRequests m + 1))"
  by (simp add: updateMetrics_def Let_def)

lemma recordAll_snoc: "recordAll m (ss @ [s]) = recordSample (recordAll m ss) s"
  by (simp add: recordAll_def)

lemma recordAll_total: "totalRequests (recordAll m ss) = totalRequests m + int (length ss)"
  by (induction ss rule: rev_induct)
     (auto simp: recordAll_snoc recordSample_def updateMetrics_total recordAll_def split: prod.splits)

lemma exact_prefixes_snoc:
  "exact_prefixes (ds @ [d]) \<longleftrightarrow> exact_prefixes ds \<and> (ds \<noteq> [] \<longrightarrow> int (length ds) dvd sum_list ds)"
  by (cases "ds = []") (auto simp: exact_prefixes_def list_all_iff Suc_le_eq)

lemma running_avg_exact:
  "exact_prefixes ds \<Longrightarrow> ds \<noteq> [] \<Longrightarrow> int (length ds) dvd sum_list ds \<Longrightarrow> durations ss = ds \<Longrightarrow>
   averageResponseTime (recordAll metrics_defaults ss) * int (length ss) = sum_list ds"
proof (induction ss arbitrary: ds rule: rev_induct)
  case Nil
  then show ?case by (simp add: durations_def)
next
  case (snoc s ss)
  obtain sc d t where s: "s = (sc, d, t)" by (cases s) auto
  define ds' where "ds' = durations ss"
  have ds: "ds = ds' @ [d]" using snoc.prems(4) by (simp add: durations_def ds'_def s)
  have len: "length ds' = length ss" by (simp add: ds'_def durations_def)
  have prev: "averageResponseTime (recordAll metrics_defaults ss) * int (length ss) = sum_list ds'"
  proof (cases "ss = []")
    case True
    then show ?thesis by (simp add: ds'_def durations_def recordAll_def)
  next
    case False
    then have ne: "ds' \<noteq> []" by (simp add: ds'_def durations_def)
    from snoc.prems(1) have ex: "exact_prefixes ds'" and dv: "int (length ds') dvd sum_list ds'"
      using ne by (simp_all add: ds exact_prefixes_snoc)
    have "durations ss = ds'" by (simp only: ds'_def)
    from snoc.IH [OF ex ne dv this] show ?thesis .
  qed
  from snoc.prems(3) have "(int (length ss) + 1) dvd (sum_list ds' + d)"
    by (simp add: ds len add.commute)
  then obtain q where q: "sum_list ds' + d = (int (length ss) + 1) * q"
    by (rule dvdE)
  have tot: "totalRequests (recordAll metrics_defaults ss) = int (length ss)"
    by (simp add: recordAll_total metrics_defaults_def)
  have "averageResponseTime (recordAll metrics_defaults (ss @ [s])) =
        Math_round ((of_int (averageResponseTime (recordAll metrics_defaults ss) * int (length ss)) + of_int d)
                     / of_int (int (length ss) + 1))"
    by (simp add: recordAll_snoc recordSample_def s updateMetrics_avg tot)
  also have "\<dots> = Math_round (of_int (sum_list ds' + d) / of_int (int (length ss) + 1))"
    by (simp add: prev)
  also have "\<dots> = Math_round (of_int q)"
    by (simp add: q)
  also have "\<dots> = q" by (rule Math_round_of_int)
  finally show ?case using q by (simp add: ds ring_distribs mult.commute)
qed


section \<open>Lemmas about the routes\<close>

lemma responseHeaders_not_in_scope:
  "resolve (handler_declarations @ module_declarations) ''responseHeaders'' v
     = Inl (ReferenceError ''responseHeaders'')"
  by (simp add: resolve_def handler_declarations_def module_declarations_def)

lemma responseHeaders_block_scoped:
  "''responseHeaders'' \<in> set try_block_declarations
   \<and> ''responseHeaders'' \<notin> set (handler_declarations @ module_declarations)"
  by (simp add: try_block_declarations_def handler_declarations_def module_declarations_def)

lemma testEndpoint_found:
  assumes "endpoints st eid = Some endpoint"
  shows "testEndpoint w st True eid body = (ServerError, st)"
  using assms
  by (simp add: testEndpoint_def responseHeaders_not_in_scope Let_def split: prod.splits)

lemma testEndpoint_never_succeeds:
  "fst (testEndpoint w st ok eid body) \<noteq> Success payload \<and> snd (testEndpoint w st ok eid body) = st"
  by (simp add: testEndpoint_def responseHeaders_not_in_scope Let_def split: prod.splits option.splits)

lemma createEndpoint_fresh:
  "createEndpoint st ok newId body = (Success endpoint, st') \<Longrightarrow>
     fullUrl_fresh endpoint \<and> endpoints st' newId = Some endpoint"
  by (auto simp: createEndpoint_def fullUrl_fresh_def preSave_ApiEndpoint_def Let_def
      split: if_splits option.splits)

lemma putEndpoint_fresh:
  assumes "putEndpoint st ok eid updateData = (Success endpoint, st')"
    and "truthy (ub_baseUrl updateData) \<or> truthy (ub_path updateData)"
  shows "fullUrl_fresh endpoint \<and> endpoints st' eid = Some endpoint"
  using assms
  by (auto simp: putEndpoint_def recompute_fullUrl_def findByIdAndUpdate_def applyUpdate_def
      set_field_def fullUrl_fresh_def truthy_def or_else_def member_of_def required_ok_def Let_def
      split: if_splits option.splits sum.splits prod.splits)

section \<open>Lemmas about the aggregation stages\<close>

lemma upsert_sum:
  assumes "\<And>a. cnt (step a) = cnt a + 1" and "cnt init = 0"
  shows "sum_list (map (\<lambda>g. cnt (snd g)) (upsert k step init groups))
         = sum_list (map (\<lambda>g. cnt (snd g)) groups) + (1::int)"
  using assms by (induction groups) auto

lemma foldl_upsert_sum:
  assumes "\<And>a d. cnt (step a d) = cnt a + 1" and "cnt init = 0"
  shows "sum_list (map (\<lambda>g. cnt (snd g))
           (foldl (\<lambda>groups d. upsert (key d) (\<lambda>a. step a d) init groups) gs docs))
         = sum_list (map (\<lambda>g. cnt (snd g)) gs) + int (length docs)"
proof (induction docs arbitrary: gs)
  case Nil
  then show ?case by simp
next
  case (Cons d docs)
  have "sum_list (map (\<lambda>g. cnt (snd g)) (upsert (key d) (\<lambda>a. step a d) init gs))
        = sum_list (map (\<lambda>g. cnt (snd g)) gs) + 1"
    by (rule upsert_sum) (simp_all add: assms)
  with Cons.IH show ?case by simp
qed

lemma group_stage_sum:
  assumes "\<And>a d. cnt (step a d) = cnt a + 1" and "cnt init = 0"
  shows "sum_list (map (\<lambda>g. cnt (snd g)) (group_stage key step init docs)) = int (length docs)"
  unfolding group_stage_def using foldl_upsert_sum [of cnt step init key "[]" docs, OF assms] by simp

lemma sum_list_sort_key:
  "sum_list (map f (sort_key k xs)) = (sum_list (map f xs) :: int)"
proof -
  have "mset (map f (sort_key k xs)) = mset (map f xs)" by simp
  then show ?thesis by (metis sum_mset_sum_list)
qed




lemma upsert_keys: "fst ` set (upsert k step init groups) = insert k (fst ` set groups)"
  by (induction groups) auto

lemma foldl_upsert_keys:
  "fst ` set (foldl (\<lambda>groups d. upsert (key d) (\<lambda>a. step a d) init groups) gs docs)
   = fst ` set gs \<union> key ` set docs"
  by (induction docs arbitrary: gs) (auto simp: upsert_keys)

lemma group_stage_keys: "fst ` set (group_stage key step init docs) = key ` set docs"
  by (simp add: group_stage_def foldl_upsert_keys)









lemma sorted_desc_unique:
  fixes xs ys :: "int list"
  assumes "sorted_wrt (\<lambda>a b. a \<ge> b) xs" and "sorted_wrt (\<lambda>a b. a \<ge> b) ys" and "mset xs = mset ys"
  shows "xs = ys"
proof -
  have "sorted (rev xs)" "sorted (rev ys)"
    using assms(1,2) by (simp_all add: sorted_wrt_rev)
  moreover have "mset (rev xs) = mset (rev ys)" using assms(3) by simp
  ultimately have "rev xs = rev ys"
    by (metis properties_for_sort)
  then show ?thesis by simp
qed

lemma sort_desc_admits_keys:
  assumes "sort_desc_admits key input out1" and "sort_desc_admits key input out2"
  shows "map key out1 = map key out2"
proof (rule sorted_desc_unique)
  show "sorted_wrt (\<lambda>a b. a \<ge> b) (map key out1)"
    using assms(1) by (simp add: sort_desc_admits_def sorted_wrt_map)
  show "sorted_wrt (\<lambda>a b. a \<ge> b) (map key out2)"
    using assms(2) by (simp add: sort_desc_admits_def sorted_wrt_map)
  have "mset out1 = mset out2" using assms by (simp add: sort_desc_admits_def)
  then show "mset (map key out1) = mset (map key out2)" by simp
qed

lemma topProducts_counts: "map rp_requestCount (topProducts pm s) = take 10 (map pg_requestCount s)"
  by (simp add: topProducts_def comp_def take_map)

lemma topProducts_ids: "map rp_id (topProducts pm s) = take 10 (map pg_id s)"
  by (simp add: topProducts_def comp_def take_map)

lemma topProducts_groups_ids:
  "set (map pg_id (topProducts_groups flt docs)) = rq_product ` set (filter (matches flt) docs)"
proof -
  have "map pg_id (topProducts_groups flt docs)
        = map fst (group_stage rq_product pa_accumulate pa_init (filter (matches flt) docs))"
    by (simp add: topProducts_groups_def comp_def)
  then show ?thesis using group_stage_keys [of rq_product pa_accumulate pa_init] by (simp only: set_map)
qed

lemma analytics_totals:
  "sum_list (map bs_totalRequests (analytics ops flt g docs)) = int (length (filter (matches flt) docs))"
proof -
  have "map bs_totalRequests (analytics ops flt g docs)
        = map (\<lambda>item. a_totalRequests (snd item))
            (sort_key fst (group_stage (groupFields ops g) accumulate acc_init (filter (matches flt) docs)))"
    by (simp add: analytics_def format_bucket_def comp_def)
  then show ?thesis
    by (simp add: sum_list_sort_key group_stage_sum accumulate_def acc_init_def)
qed

lemma matches_requested:
  "f_product flt = None \<Longrightarrow> f_endpoint flt = None \<Longrightarrow> matches flt d = requested flt d"
  by (simp add: matches_def requested_def split: option.splits)

lemma matches_product_filter: "f_product flt = Some p \<Longrightarrow> \<not> matches flt d"
  by (simp add: matches_def)

lemma analytics_totals_requested:
  assumes "f_product flt = None" and "f_endpoint flt = None"
  shows "sum_list (map bs_totalRequests (analytics ops flt g docs))
         = int (length (filter (requested flt) docs))"
proof -
  have "filter (matches flt) docs = filter (requested flt) docs"
    by (rule filter_cong) (simp_all add: matches_requested [OF assms])
  then show ?thesis by (simp add: analytics_totals)
qed

lemma analytics_product_filter: "f_product flt = Some p \<Longrightarrow> analytics ops flt g docs = []"
  by (simp add: analytics_def group_stage_def matches_product_filter)

section \<open>The concrete inputs, evaluated\<close>

lemma example_tied_groups:
  "topProducts_groups example_filter example_tied_docs = [example_group ''p2'', example_group ''p1'']"
  by (simp add: topProducts_groups_def group_stage_def example_tied_docs_def example_doc_def
      example_filter_def analytics_filter_def optional_key_def truthy_def matches_def
      pa_accumulate_def pa_init_def example_group_def js_div_examples)

lemma example_tied_sorted_21:
  "topProducts_sorted example_filter example_tied_docs [example_group ''p2'', example_group ''p1'']"
  by (simp add: topProducts_sorted_def sort_desc_admits_def example_tied_groups example_group_def)

lemma example_tied_sorted_12:
  "topProducts_sorted example_filter example_tied_docs [example_group ''p1'', example_group ''p2'']"
  by (simp add: topProducts_sorted_def sort_desc_admits_def example_tied_groups example_group_def
      add_mset_commute)




lemma example_product_filter:
  "isMongoId example_product_id"
  "length (filter (requested (analytics_filter 1699000000000 (Some example_product_id) None))
     example_product_docs) = 3"
  "map bs_totalRequests
     (analytics utc_ops (analytics_filter 1699000000000 None None) Day example_product_docs) = [2, 1]"
  "truthy (Some example_product_id)"
  by code_simp+

section \<open>The claims\<close>

subsection \<open>C1: the running average against the batch mean\<close>

text \<open>
  Claim C1 as written: after \<open>N \<ge> 1\<close> updates of one endpoint the stored
  \<^verbatim>\<open>averageResponseTime\<close> equals the rounded mean of all \<open>N\<close> durations. The update rounds
  at every step and feeds the rounded value into the next one, so the identity fails:
  for the durations 0, 1, 0 the stored values are 0, 1, 1 (\<open>Math.round(0.5) = 1\<close>, then
  \<open>Math.round(2/3) = 1\<close>) while the rounded mean of the three is \<open>Math.round(1/3) = 0\<close>.
\<close>

theorem running_average_counterexample:
  "averageResponseTime (recordAll metrics_defaults [(200, 0, 1), (200, 1, 2), (200, 0, 3)])
     \<noteq> batch_mean (durations [(200, 0, 1), (200, 1, 2), (200, 0, 3)])"
  by (simp add: recordAll_def recordSample_def updateMetrics_def metrics_defaults_def
      batch_mean_def durations_def Math_round_def Let_def)

text \<open>
  Claim C1, amended: the stored average after \<open>N \<ge> 1\<close> updates equals the rounded mean of
  the \<open>N\<close> durations whenever the mean of the first \<open>k\<close> durations is an integer for every
  \<open>k < N\<close> (in particular for \<open>N = 1\<close>, \<open>N = 2\<close> and for equal durations).
\<close>

theorem running_average_matches_batch_mean:
  assumes "samples \<noteq> []" and "exact_prefixes (durations samples)"
  shows "averageResponseTime (recordAll metrics_defaults samples) = batch_mean (durations samples)"
proof -
  from assms(1) obtain ss s where samples: "samples = ss @ [s]"
    by (cases samples rule: rev_cases) auto
  obtain sc d t where s: "s = (sc, d, t)" by (cases s) auto
  define ds where "ds = durations ss"
  have dur: "durations samples = ds @ [d]" by (simp add: samples s durations_def ds_def)
  have len: "length ds = length ss" by (simp add: ds_def durations_def)
  have prev: "averageResponseTime (recordAll metrics_defaults ss) * int (length ss) = sum_list ds"
  proof (cases "ss = []")
    case True
    then show ?thesis by (simp add: ds_def durations_def recordAll_def)
  next
    case False
    then have ne: "ds \<noteq> []" by (simp add: ds_def durations_def)
    from assms(2) have ex: "exact_prefixes ds" and dv: "int (length ds) dvd sum_list ds"
      using ne by (simp_all add: dur exact_prefixes_snoc)
    have "durations ss = ds" by (simp only: ds_def)
    from running_avg_exact [OF ex ne dv this] show ?thesis .
  qed
  have tot: "totalRequests (recordAll metrics_defaults ss) = int (length ss)"
    by (simp add: recordAll_total metrics_defaults_def)
  have "averageResponseTime (recordAll metrics_defaults samples) =
        Math_round ((of_int (averageResponseTime (recordAll metrics_defaults ss) * int (length ss)) + of_int d)
                     / of_int (int (length ss) + 1))"
    by (simp add: samples recordAll_snoc recordSample_def s updateMetrics_avg tot)
  also have "\<dots> = Math_round (of_int (sum_list ds + d) / of_int (int (length ss) + 1))"
    by (simp add: prev)
  also have "\<dots> = batch_mean (durations samples)"
    by (simp add: batch_mean_def dur len add.commute)
  finally show ?thesis .
qed

theorem running_average_matches_batch_mean_witness:
  "[(200, 100, 1), (200, 200, 2), (500, 300, 3)] \<noteq> ([] :: sample list)
   \<and> exact_prefixes (durations [(200, 100, 1), (200, 200, 2), (500, 300, 3)])
   \<and> averageResponseTime (recordAll metrics_defaults [(200, 100, 1), (200, 200, 2), (500, 300, 3)]) = 200
   \<and> batch_mean (durations [(200, 100, 1), (200, 200, 2), (500, 300, 3)]) = 200"
proof -
  have ne: "[(200, 100, 1), (200, 200, 2), (500, 300, 3)] \<noteq> ([] :: sample list)" by simp
  have "[1..<3] = [1, 2]" by (simp add: upt_rec)
  then have ex: "exact_prefixes (durations [(200, 100, 1), (200, 200, 2), (500, 300, 3)])"
    by (simp add: exact_prefixes_def durations_def)
  have bm: "batch_mean (durations [(200, 100, 1), (200, 200, 2), (500, 300, 3)]) = 200"
    by (simp add: batch_mean_def durations_def Math_round_def)
  from running_average_matches_batch_mean [OF ne ex] bm ne ex show ?thesis by simp
qed

subsection \<open>C2: the success and failure counters\<close>

text \<open>
  Claim C2 as written: \<^verbatim>\<open>failedRequests\<close> is incremented iff the status code is at least 400
  or equal to 0. The \<^verbatim>\<open>else if (statusCode >= 400)\<close> of the update leaves a record with
  status code 0 in neither counter.
\<close>

theorem counters_follow_status_code_counterexample:
  "\<not> (failedRequests (updateMetrics metrics_defaults 0 5 1000) = failedRequests metrics_defaults + 1
        \<longleftrightarrow> (400 \<le> (0::int) \<or> (0::int) = 0))"
  by (simp add: updateMetrics_def metrics_defaults_def Let_def)

text \<open>
  Claim C2, amended: every update increments \<^verbatim>\<open>totalRequests\<close>; it increments
  \<^verbatim>\<open>successfulRequests\<close> iff \<open>200 \<le> statusCode < 300\<close> and leaves it unchanged otherwise;
  it increments \<^verbatim>\<open>failedRequests\<close> iff \<open>statusCode \<ge> 400\<close> and leaves it unchanged
  otherwise, so a record with status code 0 counts in \<^verbatim>\<open>totalRequests\<close> only.
\<close>

theorem counters_follow_status_code:
  "totalRequests (updateMetrics m statusCode duration now) = totalRequests m + 1
   \<and> (successfulRequests (updateMetrics m statusCode duration now) = successfulRequests m + 1
        \<longleftrightarrow> 200 \<le> statusCode \<and> statusCode < 300)
   \<and> (successfulRequests (updateMetrics m statusCode duration now) = successfulRequests m
        \<longleftrightarrow> \<not> (200 \<le> statusCode \<and> statusCode < 300))
   \<and> (failedRequests (updateMetrics m statusCode duration now) = failedRequests m + 1
        \<longleftrightarrow> 400 \<le> statusCode)
   \<and> (failedRequests (updateMetrics m statusCode duration now) = failedRequests m
        \<longleftrightarrow> statusCode < 400)"
  by (simp add: updateMetrics_def Let_def)

subsection \<open>C3: a probe whose transport fails\<close>

text \<open>
  Claim C3: when \<^verbatim>\<open>fetch\<close> fails at transport level, the probe still builds and saves a
  record with status code 0 and status text \<^verbatim>\<open>Network Error\<close> and answers with the normal
  payload. The inner \<^verbatim>\<open>catch\<close> does set these values, but the request document is built
  from \<^verbatim>\<open>responseHeaders || {}\<close>, and \<^verbatim>\<open>responseHeaders\<close> is a \<^verbatim>\<open>const\<close> of the \<^verbatim>\<open>try\<close>
  block: reading it there throws a \<^verbatim>\<open>ReferenceError\<close>, the outer \<^verbatim>\<open>catch\<close> answers with
  status 500, and nothing is saved. The code at the failing input: the host refuses the
  connection, the inner \<^verbatim>\<open>catch\<close> yields the network-error values, the route answers 500
  and the store still holds no request.
\<close>

theorem transport_failure_answers_500:
  "w_fetch example_world (buildUrl example_world example_endpoint [])
      (buildRequestOptions example_world example_endpoint Map.empty None)
     = Rejected ''connect ECONNREFUSED''
   \<and> fst (tryFetch example_world (buildUrl example_world example_endpoint [])
             (buildRequestOptions example_world example_endpoint Map.empty None))
     = (0, ''Network Error'', JObj [(''error'', JStr ''connect ECONNREFUSED'')])
   \<and> testEndpoint example_world example_store True ''e1'' example_test_body
     = (ServerError, example_store)
   \<and> requests (snd (testEndpoint example_world example_store True ''e1'' example_test_body)) = []"
proof -
  have "endpoints example_store ''e1'' = Some example_endpoint"
    by (simp add: example_store_def)
  then have "testEndpoint example_world example_store True ''e1'' example_test_body
     = (ServerError, example_store)"
    by (rule testEndpoint_found)
  moreover have "requests example_store = []" by (simp add: example_store_def)
  ultimately show ?thesis
    by (simp add: example_world_def tryFetch_def network_error_def)
qed

subsection \<open>C4: the counter invariant\<close>

text \<open>
  Claim C4: \<open>successfulRequests + failedRequests \<le> totalRequests\<close> holds for the schema
  defaults and is preserved by the update, for every status code, duration and clock reading.
\<close>

theorem metrics_invariant_preserved:
  "metrics_inv metrics_defaults
   \<and> (metrics_inv m \<longrightarrow> metrics_inv (updateMetrics m statusCode duration now))"
  by (simp add: metrics_inv_def metrics_defaults_def updateMetrics_def Let_def)

theorem metrics_invariant_preserved_witness:
  "metrics_inv metrics_defaults
   \<and> metrics_inv (updateMetrics metrics_defaults 0 12 1000)
   \<and> metrics_inv (updateMetrics (updateMetrics metrics_defaults 0 12 1000) 503 40 2000)"
  using metrics_invariant_preserved [of metrics_defaults 0 12 1000]
        metrics_invariant_preserved [of "updateMetrics metrics_defaults 0 12 1000" 503 40 2000]
  by simp

subsection \<open>C5: the buckets and the matching records\<close>

text \<open>
  Claim C5: the \<^verbatim>\<open>totalRequests\<close> of the buckets that the analytics return add up to the
  number of records that match the filter. The grouping, the sort and the formatting lose
  and repeat nothing (\<open>analytics_totals\<close>), and without a product the claim holds
  (\<open>analytics_totals_requested\<close>). With a product it fails: the route puts the query string
  into the filter and \<^verbatim>\<open>aggregate\<close> does not cast it, so no stored ObjectId equals it and
  the route returns no bucket at all (\<open>analytics_product_filter\<close>). The code at the failing
  input: three requests of one product in the range, asked for by day with that product;
  the answer has no bucket, where the same query without the product has the buckets 2
  and 1.
\<close>

theorem product_filter_returns_no_bucket:
  "isMongoId example_product_id
   \<and> getAnalytics utc_ops 1699000000000 Day (Some example_product_id) None example_product_docs
       = Success []
   \<and> length (filter (requested (analytics_filter 1699000000000 (Some example_product_id) None))
         example_product_docs) = 3
   \<and> map_response (map bs_totalRequests)
         (getAnalytics utc_ops 1699000000000 Day None None example_product_docs) = Success [2, 1]"
proof -
  have "f_product (analytics_filter 1699000000000 (Some example_product_id) None)
        = Some example_product_id"
    using example_product_filter(4) by (simp add: analytics_filter_def optional_key_def)
  then have "analytics utc_ops (analytics_filter 1699000000000 (Some example_product_id) None) Day
               example_product_docs = []"
    by (rule analytics_product_filter)
  then show ?thesis
    using example_product_filter by (simp add: getAnalytics_def)
qed

subsection \<open>C6: the range of the success rate\<close>




subsection \<open>C7: ties in the ranking of the top products\<close>

text \<open>
  Claim C7 as written: of two products with equal request counts the one with the
  lexically smaller identifier comes first, so that the ranking is the same in every run.
  The pipeline sorts on \<^verbatim>\<open>requestCount\<close> alone. For one request of product \<^verbatim>\<open>p2\<close> and one of
  \<^verbatim>\<open>p1\<close> the sort stage admits the order \<^verbatim>\<open>p2\<close>, \<^verbatim>\<open>p1\<close>, against the claim, as well as the
  order \<^verbatim>\<open>p1\<close>, \<^verbatim>\<open>p2\<close>; a stable sort of the groups in the order of their first document
  gives \<^verbatim>\<open>p2\<close>, \<^verbatim>\<open>p1\<close>.
\<close>

theorem ranking_ties_counterexample:
  "topProducts_sorted example_filter example_tied_docs [example_group ''p2'', example_group ''p1'']
   \<and> map rp_id (topProducts Map.empty [example_group ''p2'', example_group ''p1'']) = [''p2'', ''p1'']
   \<and> map rp_requestCount (topProducts Map.empty [example_group ''p2'', example_group ''p1'']) = [1, 1]
   \<and> ''p1'' < ''p2''
   \<and> topProducts_sorted example_filter example_tied_docs [example_group ''p1'', example_group ''p2'']
   \<and> map rp_id (topProducts Map.empty [example_group ''p1'', example_group ''p2'']) = [''p1'', ''p2'']
   \<and> sort_key (\<lambda>g. - pg_requestCount g) (topProducts_groups example_filter example_tied_docs)
       = [example_group ''p2'', example_group ''p1'']"
  using example_tied_sorted_21 example_tied_sorted_12
  by (simp add: topProducts_def example_group_def example_tied_groups)

text \<open>
  Claim C7, amended: the ranking of the top products is in descending order of request
  count, has at most 10 entries, and each entry is the product of a matching request; two
  runs over the same requests give the same sequence of request counts. The order of
  products with equal counts is not fixed.
\<close>

theorem ranking_by_count:
  assumes "topProducts_sorted flt docs sorted1" and "topProducts_sorted flt docs sorted2"
  shows "sorted_wrt (\<lambda>a b. rp_requestCount a \<ge> rp_requestCount b) (topProducts productMap sorted1)
     \<and> length (topProducts productMap sorted1) \<le> 10
     \<and> set (map rp_id (topProducts productMap sorted1)) \<subseteq> rq_product ` set (filter (matches flt) docs)
     \<and> map rp_requestCount (topProducts productMap sorted1)
         = map rp_requestCount (topProducts productMap sorted2)"
proof -
  from assms(1) have srt: "sorted_wrt (\<lambda>a b. pg_requestCount a \<ge> pg_requestCount b) sorted1"
    and ms: "mset sorted1 = mset (topProducts_groups flt docs)"
    by (simp_all add: topProducts_sorted_def sort_desc_admits_def)
  have "sorted_wrt (\<lambda>a b. a \<ge> b) (map pg_requestCount sorted1)"
    using srt by (simp add: sorted_wrt_map)
  then have "sorted_wrt (\<lambda>a b. a \<ge> b) (take 10 (map pg_requestCount sorted1))"
    by (rule sorted_wrt_take)
  then have "sorted_wrt (\<lambda>a b. a \<ge> b) (map rp_requestCount (topProducts productMap sorted1))"
    by (simp only: topProducts_counts)
  then have 1: "sorted_wrt (\<lambda>a b. rp_requestCount a \<ge> rp_requestCount b) (topProducts productMap sorted1)"
    by (simp add: sorted_wrt_map)
  have 2: "length (topProducts productMap sorted1) \<le> 10"
    by (simp add: topProducts_def)
  have "set (map pg_id sorted1) = set (map pg_id (topProducts_groups flt docs))"
    using ms by (metis mset_map set_mset_mset)
  then have "set (take 10 (map pg_id sorted1)) \<subseteq> rq_product ` set (filter (matches flt) docs)"
    using set_take_subset [of 10 "map pg_id sorted1"] by (simp only: topProducts_groups_ids)
  then have 3: "set (map rp_id (topProducts productMap sorted1)) \<subseteq> rq_product ` set (filter (matches flt) docs)"
    by (simp only: topProducts_ids)
  have "map pg_requestCount sorted1 = map pg_requestCount sorted2"
    using assms by (auto simp: topProducts_sorted_def intro: sort_desc_admits_keys)
  then have 4: "map rp_requestCount (topProducts productMap sorted1)
         = map rp_requestCount (topProducts productMap sorted2)"
    by (simp only: topProducts_counts)
  from 1 2 3 4 show ?thesis by blast
qed

theorem ranking_by_count_witness:
  "topProducts_sorted example_filter example_tied_docs [example_group ''p2'', example_group ''p1'']
   \<and> topProducts_sorted example_filter example_tied_docs [example_group ''p1'', example_group ''p2'']
   \<and> sorted_wrt (\<lambda>a b. rp_requestCount a \<ge> rp_requestCount b)
        (topProducts Map.empty [example_group ''p2'', example_group ''p1''])
   \<and> length (topProducts Map.empty [example_group ''p2'', example_group ''p1'']) = 2
   \<and> map rp_requestCount (topProducts Map.empty [example_group ''p2'', example_group ''p1''])
       = map rp_requestCount (topProducts Map.empty [example_group ''p1'', example_group ''p2''])"
proof -
  have len: "length (topProducts Map.empty [example_group ''p2'', example_group ''p1'']) = 2"
    by (simp add: topProducts_def)
  from ranking_by_count [OF example_tied_sorted_21 example_tied_sorted_12, of Map.empty]
    example_tied_sorted_21 example_tied_sorted_12 len
  show ?thesis by blast
qed

subsection \<open>C8: the headers of the outgoing request\<close>

text \<open>
  Claim C8 as written: the outgoing headers are the declared headers of the endpoint merged
  with the overrides of the caller, and a declared header that is not overridden is sent.
  The route never reads the declared headers: an endpoint that declares \<^verbatim>\<open>X-Api-Key\<close>,
  probed without overrides, sends no \<^verbatim>\<open>X-Api-Key\<close>.
\<close>

theorem request_headers_counterexample:
  "\<lparr>hd_name = ''X-Api-Key'', hd_value = ''secret'', hd_required = True\<rparr> \<in> set (ep_headers example_endpoint)
   \<and> (Map.empty :: string \<rightharpoonup> string) ''X-Api-Key'' = None
   \<and> ro_headers (buildRequestOptions example_world example_endpoint Map.empty None) ''X-Api-Key'' = None"
  by (simp add: example_endpoint_def buildRequestOptions_def)

text \<open>
  Claim C8, amended: the outgoing headers are the fixed default
  \<^verbatim>\<open>Content-Type: application/json\<close> merged with the overrides of the caller; an override
  wins over the default; the declared headers of the endpoint have no effect.
\<close>

theorem request_headers_merge:
  "ro_headers (buildRequestOptions w endpoint headers requestBody) name
     = (case headers name of
          Some v \<Rightarrow> Some v
        | None \<Rightarrow> if name = ''Content-Type'' then Some ''application/json'' else None)
   \<and> ro_headers (buildRequestOptions w (endpoint\<lparr>ep_headers := declared\<rparr>) headers requestBody)
     = ro_headers (buildRequestOptions w endpoint headers requestBody)"
  by (simp add: buildRequestOptions_def map_add_def split: option.splits)

subsection \<open>C9: the sign of the duration\<close>

text \<open>
  Claim C9 as written: the duration of a record is never negative, by a floor at zero. Both
  the probe route and the \<^verbatim>\<open>pre('save')\<close> hook store the plain difference: for an end
  time 600 milliseconds before the start time the stored duration is \<open>-600\<close>, not 0.
\<close>

theorem duration_floor_counterexample:
  "rq_duration (preSave_ApiRequest
       ((example_doc ''p1'' ''e1'' 200 1700000000000 0)\<lparr>rq_endTime := Some 1699999999400\<rparr>)) = - 600
   \<and> probe_duration 1700000000000 1699999999400 = - 600
   \<and> max 0 (1699999999400 - 1700000000000) = (0::int)"
  by (simp add: preSave_ApiRequest_def example_doc_def probe_duration_def)

text \<open>
  Claim C9, amended: the duration that the probe route computes, and the one that the
  \<^verbatim>\<open>pre('save')\<close> hook stores for a record with both dates, is the end time minus the start
  time in milliseconds; it is non-negative exactly when the end time is not before the
  start time.
\<close>

theorem duration_is_difference:
  assumes "rq_startTime r = Some startTime" and "rq_endTime r = Some endTime"
  shows "rq_duration (preSave_ApiRequest r) = endTime - startTime
     \<and> probe_duration startTime endTime = endTime - startTime
     \<and> (0 \<le> rq_duration (preSave_ApiRequest r) \<longleftrightarrow> startTime \<le> endTime)
     \<and> (0 \<le> probe_duration startTime endTime \<longleftrightarrow> startTime \<le> endTime)"
  using assms by (simp add: preSave_ApiRequest_def probe_duration_def)

theorem duration_is_difference_witness:
  "rq_startTime (example_doc ''p1'' ''e1'' 200 1700000000000 0) = Some 1700000000000
   \<and> rq_endTime (example_doc ''p1'' ''e1'' 200 1700000000000 0) = Some 1700000000000
   \<and> rq_duration (preSave_ApiRequest (example_doc ''p1'' ''e1'' 200 1700000000000 0)) = 0
   \<and> rq_startTime ((example_doc ''p1'' ''e1'' 200 1700000000000 7)\<lparr>rq_duration := 99\<rparr>) = Some 1700000000000
   \<and> rq_endTime ((example_doc ''p1'' ''e1'' 200 1700000000000 7)\<lparr>rq_duration := 99\<rparr>) = Some 1700000000007
   \<and> rq_duration (preSave_ApiRequest ((example_doc ''p1'' ''e1'' 200 1700000000000 7)\<lparr>rq_duration := 99\<rparr>)) = 7
   \<and> probe_duration 1700000000000 1700000000007 = 7"
proof -
  have a: "rq_startTime (example_doc ''p1'' ''e1'' 200 1700000000000 0) = Some 1700000000000"
    and b: "rq_endTime (example_doc ''p1'' ''e1'' 200 1700000000000 0) = Some 1700000000000"
    and c: "rq_startTime ((example_doc ''p1'' ''e1'' 200 1700000000000 7)\<lparr>rq_duration := 99\<rparr>) = Some 1700000000000"
    and d: "rq_endTime ((example_doc ''p1'' ''e1'' 200 1700000000000 7)\<lparr>rq_duration := 99\<rparr>) = Some 1700000000007"
    by (simp_all add: example_doc_def)
  from duration_is_difference [OF a b] duration_is_difference [OF c d] a b c d
  show ?thesis by simp
qed

subsection \<open>C10: the stored full URL\<close>

text \<open>
  Claim C10: after every save of an endpoint, through the creation route or the update
  route, the stored \<^verbatim>\<open>fullUrl\<close> is the base URL followed by the path. Creation keeps that
  (\<open>createEndpoint_fresh\<close>), and so does an update that carries a base URL or a path
  (\<open>putEndpoint_fresh\<close>). The update route writes with \<^verbatim>\<open>findByIdAndUpdate\<close>, which does not
  run the hook, and recomputes \<^verbatim>\<open>fullUrl\<close> only under \<^verbatim>\<open>updateData.baseUrl || updateData.path\<close>.
  The code at the failing input: an update whose body is \<^verbatim>\<open>{ fullUrl: ... }\<close> alone is
  stored as it is, and the stored \<^verbatim>\<open>fullUrl\<close> no longer is the base URL followed by the
  path.
\<close>

theorem put_with_fullUrl_goes_stale:
  "putEndpoint example_store True ''e1'' example_update
     = (Success (example_endpoint\<lparr>ep_fullUrl := ''http://stale.example.org/old''\<rparr>),
        example_store\<lparr>endpoints :=
          [''e1'' \<mapsto> example_endpoint\<lparr>ep_fullUrl := ''http://stale.example.org/old''\<rparr>]\<rparr>)
   \<and> fullUrl_fresh example_endpoint
   \<and> \<not> fullUrl_fresh (example_endpoint\<lparr>ep_fullUrl := ''http://stale.example.org/old''\<rparr>)"
  by (simp add: putEndpoint_def recompute_fullUrl_def findByIdAndUpdate_def applyUpdate_def
      set_field_def set_metrics_def fullUrl_fresh_def truthy_def required_ok_def example_store_def
      example_update_def example_endpoint_def Let_def)

end
